theory Spec2Isabelle
  imports Main
begin

section \<open>Python values, errors and strings\<close>

text \<open>
  The values that schemas, variable maps and candidate documents carry are the values of
  parsed JSON/YAML. A dictionary is an association list in insertion order, looked up with
  \<open>map_of\<close>. A float is carried as its \<open>repr\<close> text (Python's \<open>repr\<close> of a float
  round-trips), since no claim computes with floats.
\<close>

datatype jval =
    JNull
  | JBool bool
  | JInt int
  | JFloat string
  | JStr string
  | JList "jval list"
  | JObj "(string \<times> jval) list"

text \<open>
  Exceptions are values. A \<open>ValueError\<close> carries its message, because the source
  builds the messages that the claims talk about.
\<close>

datatype error =
    ValueError string
  | TypeError
  | KeyError string
  | IndexError
  | AttributeError
  | ValidationError

type_synonym 'a result = "error + 'a"

subsection \<open>Dictionaries\<close>

text \<open>\<open>d[k] = v\<close>: an existing key keeps its position, a new key goes last.\<close>

fun dict_set :: "('k \<times> 'v) list \<Rightarrow> 'k \<Rightarrow> 'v \<Rightarrow> ('k \<times> 'v) list" where
  "dict_set [] k v = [(k, v)]"
| "dict_set ((k', v') # d) k v =
     (if k' = k then (k, v) # d else (k', v') # dict_set d k v)"

subsection \<open>String methods\<close>

definition startswith :: "string \<Rightarrow> string \<Rightarrow> bool" where
  "startswith s p = (take (length p) s = p)"

text \<open>\<open>s.split(c)\<close> for a one-character separator: never an empty list.\<close>

fun split_char :: "char \<Rightarrow> string \<Rightarrow> string list" where
  "split_char c [] = [[]]"
| "split_char c (x # xs) =
     (if x = c then [] # split_char c xs
      else (case split_char c xs of
              [] \<Rightarrow> [[x]]
            | w # ws \<Rightarrow> (x # w) # ws))"

text \<open>\<open>s.split(c, 1)\<close>: at most one split, at the first separator.\<close>

definition split_once :: "char \<Rightarrow> string \<Rightarrow> string list" where
  "split_once c s =
     (if c \<in> set s then [takeWhile (\<lambda>x. x \<noteq> c) s, tl (dropWhile (\<lambda>x. x \<noteq> c) s)]
      else [s])"


text \<open>
  \<open>s.lower()\<close> on ASCII text: the letters \<open>A\<close> to \<open>Z\<close> move to \<open>a\<close> to \<open>z\<close>, every
  other character stays.
\<close>

definition lower_char :: "char \<Rightarrow> char" where
  "lower_char c =
     (case map_of (zip ''ABCDEFGHIJKLMNOPQRSTUVWXYZ'' ''abcdefghijklmnopqrstuvwxyz'') c of
        Some l \<Rightarrow> l
      | None \<Rightarrow> c)"

definition lower :: "string \<Rightarrow> string" where
  "lower s = map lower_char s"

subsection \<open>Library functions taken as parameters\<close>

text \<open>
  What the code gets from the Python runtime, the templating and validation libraries and
  does not decide itself is a parameter of the model: the constructors \<open>int\<close> and
  \<open>float\<close> on foreign inputs, \<open>repr\<close> of strings and containers, replacement fields of
  \<open>str.format\<close> beyond a plain name, Jinja2 rendering, the iteration order of a \<open>set\<close>
  of strings (given the sequence of insertions), and the validation of a scalar by the
  validation library. Every theorem below holds for all of them.
\<close>

datatype prim = PStr | PInt | PFloat | PBool

record pylib =
  int_of_str :: "string \<Rightarrow> int result"
  int_of_float :: "string \<Rightarrow> int result"
  float_of_str :: "string \<Rightarrow> string result"
  float_of_int :: "int \<Rightarrow> string result"
  repr_of :: "jval \<Rightarrow> string"
  format_other :: "string \<Rightarrow> (string \<times> jval) list \<Rightarrow> string result"
  jinja_render :: "string \<Rightarrow> (string \<times> jval) list \<Rightarrow> string result"
  set_iter :: "string list \<Rightarrow> string list"
  scalar_ok :: "prim \<Rightarrow> jval \<Rightarrow> bool"

subsection \<open>\<open>str\<close> and \<open>bool\<close> of a value\<close>

definition digit :: "nat \<Rightarrow> char" where
  "digit d = ''0123456789'' ! d"

fun str_of_nat :: "nat \<Rightarrow> string" where
  "str_of_nat n = (if n < 10 then [digit n] else str_of_nat (n div 10) @ [digit (n mod 10)])"

declare str_of_nat.simps [simp del]

text \<open>
  \<open>str\<close> of an integer, in full: a limit on the number of digits, which an interpreter
  may be configured with, is not modelled.
\<close>

definition str_of_int :: "int \<Rightarrow> string" where
  "str_of_int i = (if i < 0 then CHR ''-'' # str_of_nat (nat (- i)) else str_of_nat (nat i))"

fun py_str :: "pylib \<Rightarrow> jval \<Rightarrow> string" where
  "py_str L (JStr s) = s"
| "py_str L (JInt n) = str_of_int n"
| "py_str L (JBool b) = (if b then ''True'' else ''False'')"
| "py_str L JNull = ''None''"
| "py_str L (JFloat r) = r"
| "py_str L (JList vs) = repr_of L (JList vs)"
| "py_str L (JObj d) = repr_of L (JObj d)"

text \<open>Truthiness, as \<open>if x:\<close> and \<open>bool(x)\<close> test it.\<close>

fun truthy :: "jval \<Rightarrow> bool" where
  "truthy JNull = False"
| "truthy (JBool b) = b"
| "truthy (JInt n) = (n \<noteq> 0)"
| "truthy (JFloat r) = (r \<noteq> ''0.0'' \<and> r \<noteq> ''-0.0'')"
| "truthy (JStr s) = (s \<noteq> [])"
| "truthy (JList vs) = (vs \<noteq> [])"
| "truthy (JObj d) = (d \<noteq> [])"

section \<open>Schema specification (\<open>types/schema.py\<close>)\<close>

text \<open>
  The metadata of a \<open>DtypeSpec\<close> (description, pattern, format, bounds) is never read by
  the model maker and is left out.
\<close>

record dtype_spec =
  dim :: int
  dtype :: string
  allowed_values :: "jval list option"
  optional :: bool

record field_spec =
  name :: string
  spec :: dtype_spec

record custom_dtype_spec =
  type_name :: string
  type_fields :: "field_spec list"

record schema_config =
  schema_name :: string
  schema_fields :: "field_spec list"
  custom_dtypes :: "custom_dtype_spec list"

section \<open>Model maker (\<open>model_maker/maker.py\<close>)\<close>

subsection \<open>The types that are built\<close>

text \<open>
  A built type is a scalar class, an enumeration with its members in order, a list type or
  a model class; a model class has its name, its \<open>extra\<close> setting and its fields, each
  with its type and whether it is required.
\<close>

datatype extra = ExtraIgnore | ExtraAllow | ExtraForbid

datatype pytype =
    TPrim prim
  | TEnum string "(string \<times> jval) list"
  | TList pytype
  | TModel model
and model =
    Model (mname: string) (model_extra: extra) (model_fields: "mfield list")
and mfield =
    MField (field_name: string) (field_type: pytype) (field_required: bool)

text \<open>\<open>schema_maker/dtypes.py\<close>: the bounding box, four required integers, extras forbidden.\<close>

definition Bbox :: model where
  "Bbox = Model ''Bbox'' ExtraForbid
            [MField ''x1'' (TPrim PInt) True, MField ''y1'' (TPrim PInt) True,
             MField ''x2'' (TPrim PInt) True, MField ''y2'' (TPrim PInt) True]"

subsection \<open>Validation by a built type\<close>

text \<open>
  What the validation library does with a built type: a scalar is checked by the library's
  scalar validator, an enumeration accepts the values of its members, a list type accepts
  a list of accepted elements, a model accepts a mapping in which every present field is
  accepted by its type, every absent field is not required, and, when extras are
  forbidden, there is no key that is not a field. Values are compared as values of
  \<open>jval\<close>: that Python takes \<open>1\<close>, \<open>1.0\<close> and \<open>True\<close> for equal is not modelled.
\<close>

fun validate :: "pylib \<Rightarrow> pytype \<Rightarrow> jval \<Rightarrow> bool"
and validate_model :: "pylib \<Rightarrow> model \<Rightarrow> (string \<times> jval) list \<Rightarrow> bool"
and validate_fields :: "pylib \<Rightarrow> mfield list \<Rightarrow> (string \<times> jval) list \<Rightarrow> bool" where
  "validate L (TPrim p) v = scalar_ok L p v"
| "validate L (TEnum n members) v = (v \<in> set (map snd members))"
| "validate L (TList t) v = (case v of JList vs \<Rightarrow> list_all (validate L t) vs | _ \<Rightarrow> False)"
| "validate L (TModel m) v = (case v of JObj d \<Rightarrow> validate_model L m d | _ \<Rightarrow> False)"
| "validate_model L (Model n ex fs) d =
     ((ex = ExtraForbid \<longrightarrow> list_all (\<lambda>kv. fst kv \<in> set (map field_name fs)) d)
      \<and> validate_fields L fs d)"
| "validate_fields L [] d = True"
| "validate_fields L (MField fname t req # fs) d =
     ((case map_of d fname of None \<Rightarrow> \<not> req | Some v \<Rightarrow> validate L t v)
      \<and> validate_fields L fs d)"

subsection \<open>Calling a type on a declared value\<close>

text \<open>
  \<open>dtype(v)\<close>: the scalar classes convert; a model class called with one positional
  argument raises \<open>TypeError\<close>.
\<close>

definition to_int :: "pylib \<Rightarrow> jval \<Rightarrow> int result" where
  "to_int L v =
     (case v of
        JInt n \<Rightarrow> Inr n
      | JBool b \<Rightarrow> Inr (if b then 1 else 0)
      | JStr s \<Rightarrow> int_of_str L s
      | JFloat r \<Rightarrow> int_of_float L r
      | _ \<Rightarrow> Inl TypeError)"

definition to_float :: "pylib \<Rightarrow> jval \<Rightarrow> string result" where
  "to_float L v =
     (case v of
        JFloat r \<Rightarrow> Inr r
      | JInt n \<Rightarrow> float_of_int L n
      | JBool b \<Rightarrow> Inr (if b then ''1.0'' else ''0.0'')
      | JStr s \<Rightarrow> float_of_str L s
      | _ \<Rightarrow> Inl TypeError)"

definition coerce :: "pylib \<Rightarrow> prim \<Rightarrow> jval \<Rightarrow> jval result" where
  "coerce L p v =
     (case p of
        PStr \<Rightarrow> Inr (JStr (py_str L v))
      | PInt \<Rightarrow> map_sum id JInt (to_int L v)
      | PFloat \<Rightarrow> map_sum id JFloat (to_float L v)
      | PBool \<Rightarrow> Inr (JBool (truthy v)))"

definition call_type :: "pylib \<Rightarrow> pytype \<Rightarrow> jval \<Rightarrow> jval result" where
  "call_type L t v = (case t of TPrim p \<Rightarrow> coerce L p v | _ \<Rightarrow> Inl TypeError)"

text \<open>A comprehension \<open>[f(v) for v in vs]\<close> whose \<open>f\<close> may raise.\<close>

fun map_result :: "('a \<Rightarrow> 'b result) \<Rightarrow> 'a list \<Rightarrow> 'b list result" where
  "map_result f [] = Inr []"
| "map_result f (x # xs) =
     (case f x of
        Inl e \<Rightarrow> Inl e
      | Inr y \<Rightarrow> (case map_result f xs of Inl e \<Rightarrow> Inl e | Inr ys \<Rightarrow> Inr (y # ys)))"

text \<open>
  \<open>create_dynamic_enum\<close>: \<open>Enum(name, {str(v): v for v in values})\<close>. The enumeration
  is taken to have the entries of the mapping as its members; the rules of the
  \<open>enum\<close> module about reserved member names are not part of this model.
\<close>

definition create_dynamic_enum :: "pylib \<Rightarrow> string \<Rightarrow> jval list \<Rightarrow> pytype" where
  "create_dynamic_enum L n values =
     TEnum n (foldl (\<lambda>d v. dict_set d (py_str L v) v) [] values)"

subsection \<open>\<open>SchemaModelMaker\<close>\<close>

record maker_state =
  custom_models :: "(string \<times> model) list"
  building :: "string set"
  custom_dtype_specs :: "(string \<times> custom_dtype_spec) list"

definition get_primitive_dtype :: "string \<Rightarrow> prim option" where
  "get_primitive_dtype dtype_name =
     (let l = lower dtype_name
      in if l \<in> {''string'', ''str''} then Some PStr
         else if l \<in> {''integer'', ''int''} then Some PInt
         else if l \<in> {''number'', ''float''} then Some PFloat
         else if l \<in> {''boolean'', ''bool''} then Some PBool
         else None)"

text \<open>
  The part of the loop body of \<open>_build_model\<close> after the base dtype is resolved: the
  enumeration for a non-empty \<open>allowed_values\<close>, then the dimensions.
\<close>

definition apply_allowed_values ::
  "pylib \<Rightarrow> string \<Rightarrow> field_spec \<Rightarrow> pytype \<Rightarrow> pytype result" where
  "apply_allowed_values L model_name field base =
     (case allowed_values (spec field) of
        None \<Rightarrow> Inr base
      | Some vs \<Rightarrow>
          if vs = [] then Inr base
          else (case map_result (call_type L base) vs of
                  Inl e \<Rightarrow> Inl e
                | Inr allowed \<Rightarrow>
                    Inr (create_dynamic_enum L (model_name @ ''_'' @ name field @ ''_enum'')
                           allowed)))"

definition expand_dims :: "int \<Rightarrow> pytype \<Rightarrow> pytype result" where
  "expand_dims d t =
     (if d = 0 then Inr t
      else if d = 1 then Inr (TList t)
      else if d = 2 then Inr (TList (TList t))
      else Inl (ValueError ''dim > 2 not supported for now''))"

definition field_dtype :: "pylib \<Rightarrow> string \<Rightarrow> field_spec \<Rightarrow> pytype \<Rightarrow> pytype result" where
  "field_dtype L model_name field base =
     (case apply_allowed_values L model_name field base of
        Inl e \<Rightarrow> Inl e
      | Inr t \<Rightarrow> expand_dims (dim (spec field)) t)"

text \<open>
  \<open>create_model(model_name, __config__={"extra": "forbid"}, **model_spec_dict)\<close>: a
  field whose default is \<open>...\<close> is required, one whose default is \<open>None\<close> is not.
  The rules of the validation library about field names (a leading underscore, the names
  of its own keyword arguments) are not part of this model.
\<close>

definition create_model :: "string \<Rightarrow> (string \<times> pytype \<times> bool) list \<Rightarrow> model" where
  "create_model model_name model_spec_dict =
     Model model_name ExtraForbid
       (map (\<lambda>(k, t, required). MField k t required) model_spec_dict)"

text \<open>
  \<open>_get_dtype\<close> and \<open>_build_model\<close> call each other. The state is passed through and
  comes back also with an error, as the exception leaves it. Each descent into a custom
  type spends one unit of fuel; \<open>None\<close> is "out of fuel".
\<close>

fun get_dtype ::
  "pylib \<Rightarrow> nat \<Rightarrow> string \<Rightarrow> maker_state \<Rightarrow> (pytype result \<times> maker_state) option"
and build_model ::
  "pylib \<Rightarrow> nat \<Rightarrow> string \<Rightarrow> field_spec list \<Rightarrow> maker_state
     \<Rightarrow> (model result \<times> maker_state) option"
and build_fields ::
  "pylib \<Rightarrow> nat \<Rightarrow> string \<Rightarrow> field_spec list \<Rightarrow> (string \<times> pytype \<times> bool) list
     \<Rightarrow> maker_state \<Rightarrow> ((string \<times> pytype \<times> bool) list result \<times> maker_state) option"
where
  "get_dtype L fuel dtype_name s =
     (case get_primitive_dtype dtype_name of
        Some p \<Rightarrow> Some (Inr (TPrim p), s)
      | None \<Rightarrow>
          if lower dtype_name = ''bbox'' then Some (Inr (TModel Bbox), s)
          else
            (case map_of (custom_models s) dtype_name of
               Some m \<Rightarrow> Some (Inr (TModel m), s)
             | None \<Rightarrow>
                 if dtype_name \<in> building s then
                   Some (Inl (ValueError
                     (''Recursive dtype definition is not allowed: '' @ dtype_name)), s)
                 else
                   (case map_of (custom_dtype_specs s) dtype_name of
                      None \<Rightarrow>
                        Some (Inl (ValueError
                          (''dtype '' @ repr_of L (JStr dtype_name) @ '' not supported'')), s)
                    | Some custom_spec \<Rightarrow>
                        (case fuel of
                           0 \<Rightarrow> None
                         | Suc k \<Rightarrow>
                             (case build_model L k (type_name custom_spec)
                                     (type_fields custom_spec)
                                     (s\<lparr>building := insert dtype_name (building s)\<rparr>) of
                                None \<Rightarrow> None
                              | Some (Inl e, s') \<Rightarrow> Some (Inl e, s')
                              | Some (Inr m, s') \<Rightarrow>
                                  (let s'' = s'\<lparr>custom_models :=
                                                 dict_set (custom_models s') dtype_name m\<rparr>
                                   in if dtype_name \<in> building s'' then
                                        Some (Inr (TModel m),
                                              s''\<lparr>building := building s'' - {dtype_name}\<rparr>)
                                      else Some (Inl (KeyError dtype_name), s'')))))))"
| "build_model L fuel model_name field_specs s =
     (case build_fields L fuel model_name field_specs [] s of
        None \<Rightarrow> None
      | Some (Inl e, s') \<Rightarrow> Some (Inl e, s')
      | Some (Inr model_spec_dict, s') \<Rightarrow> Some (Inr (create_model model_name model_spec_dict), s'))"
| "build_fields L fuel model_name [] model_spec_dict s = Some (Inr model_spec_dict, s)"
| "build_fields L fuel model_name (field # field_specs) model_spec_dict s =
     (case get_dtype L fuel (dtype (spec field)) s of
        None \<Rightarrow> None
      | Some (Inl e, s') \<Rightarrow> Some (Inl e, s')
      | Some (Inr base, s') \<Rightarrow>
          (case field_dtype L model_name field base of
             Inl e \<Rightarrow> Some (Inl e, s')
           | Inr t \<Rightarrow>
               build_fields L fuel model_name field_specs
                 (dict_set model_spec_dict (name field) (t, \<not> optional (spec field))) s'))"

text \<open>
  \<open>make\<close>: the three attributes are reset, the custom dtypes are registered (a later one
  of the same name replaces an earlier one), and the root model is built. The descent
  enters every registered custom type at most once at a time, so one unit of fuel for
  each of them is enough (\<open>make_returns\<close> below).
\<close>

definition register_custom_dtypes :: "custom_dtype_spec list \<Rightarrow> maker_state \<Rightarrow> maker_state" where
  "register_custom_dtypes cs s =
     foldl (\<lambda>st c. st\<lparr>custom_dtype_specs :=
                        dict_set (custom_dtype_specs st) (type_name c) c\<rparr>) s cs"

definition make ::
  "pylib \<Rightarrow> schema_config \<Rightarrow> maker_state \<Rightarrow> (model result \<times> maker_state) option" where
  "make L config s =
     (let s0 = register_custom_dtypes (custom_dtypes config)
                 \<lparr>custom_models = [], building = {}, custom_dtype_specs = []\<rparr>
      in build_model L (length (custom_dtype_specs s0)) (schema_name config)
           (schema_fields config) s0)"

section \<open>Content blocks (\<open>types/prompt/content.py\<close>)\<close>

datatype image_url =
    UrlStr string
  | ImageUrlObject string "string option" string

datatype content_block =
    TextContentBlock string
  | ImageContentBlock image_url

section \<open>\<open>str.format\<close> with keyword arguments\<close>

text \<open>
  \<open>template.format(**kw)\<close>, read from left to right as Python does. \<open>{{\<close> and
  \<open>}}\<close> are literal braces, a lone \<open>}\<close> is an error, and a replacement field that is a
  plain name (not empty, not a number, closed by \<open>}\<close> with no conversion, format
  specification, attribute or index) is replaced by \<open>str\<close> of the keyword argument of
  that name, or raises \<open>KeyError\<close> with the name. From any other replacement field on,
  the rest of the template is left to the library parameter \<open>format_other\<close>.
\<close>

definition field_stop :: "char \<Rightarrow> bool" where
  "field_stop c = (c \<in> set ''{}[].!:'')"

definition all_digits :: "string \<Rightarrow> bool" where
  "all_digits n = list_all (\<lambda>c. c \<in> set ''0123456789'') n"

definition plain_field :: "string \<Rightarrow> (string \<times> string) option" where
  "plain_field cs =
     (let n = takeWhile (\<lambda>x. \<not> field_stop x) cs
      in case dropWhile (\<lambda>x. \<not> field_stop x) cs of
           [] \<Rightarrow> None
         | x # rest \<Rightarrow>
             if x = CHR ''}'' \<and> n \<noteq> [] \<and> \<not> all_digits n then Some (n, rest) else None)"

lemma plain_field_shorter: "plain_field cs = Some (n, rest) \<Longrightarrow> length rest < length cs"
proof -
  assume a: "plain_field cs = Some (n, rest)"
  then obtain x where "dropWhile (\<lambda>x. \<not> field_stop x) cs = x # rest"
    by (auto simp: plain_field_def Let_def split: list.splits if_splits)
  then have "length (dropWhile (\<lambda>x. \<not> field_stop x) cs) = Suc (length rest)"
    by simp
  moreover have "length (dropWhile (\<lambda>x. \<not> field_stop x) cs) \<le> length cs"
    by (rule length_dropWhile_le)
  ultimately show ?thesis by simp
qed

function py_format :: "pylib \<Rightarrow> string \<Rightarrow> (string \<times> jval) list \<Rightarrow> string result" where
  "py_format L [] kw = Inr []"
| "py_format L (c # cs) kw =
     (if c = CHR ''{'' then
        (if cs \<noteq> [] \<and> hd cs = CHR ''{'' then
           map_sum id ((#) CHR ''{'') (py_format L (tl cs) kw)
         else
           (case plain_field cs of
              None \<Rightarrow> format_other L (c # cs) kw
            | Some (n, rest) \<Rightarrow>
                (case map_of kw n of
                   None \<Rightarrow> Inl (KeyError n)
                 | Some v \<Rightarrow> map_sum id ((@) (py_str L v)) (py_format L rest kw))))
      else if c = CHR ''}'' then
        (if cs \<noteq> [] \<and> hd cs = CHR ''}'' then
           map_sum id ((#) CHR ''}'') (py_format L (tl cs) kw)
         else Inl (ValueError (''Single '' @ [CHR 0x27] @ ''}'' @ [CHR 0x27]
                @ '' encountered in format string'')))
      else map_sum id ((#) c) (py_format L cs kw))"
  by pat_completeness auto
termination
  by (relation "measure (\<lambda>(L, s, kw). length s)")
     (auto dest: plain_field_shorter simp: less_Suc_eq_le)

section \<open>Prompt templates (\<open>types/prompt_template/template.py\<close>)\<close>

datatype content_template =
    TextTemplate (content: string) (input_variables: "string list")
  | ImageTemplate (input_name: string)

datatype iterable_group =
    IterableContentTemplateGroup (items: "group_item list") (input_key: "string option")
and group_item =
    Content content_template
  | Nested iterable_group

datatype template_group =
    StaticContentTemplateGroup "content_template list"
  | IterableGroup iterable_group

datatype message_template =
    SingleContentMessageTemplate string content_template
  | IterableContentMessageTemplate string "template_group list" "string option"

section \<open>Template formatter (\<open>template_formatter/formatter.py\<close>)\<close>

text \<open>
  A variable scope is whatever value reaches the formatter: the top-level input is a
  dictionary, but an iterable message hands each element of its list on as the scope, so
  the operations on a scope are written out for every kind of value.
\<close>

fun contains :: "string \<Rightarrow> string \<Rightarrow> bool" where
  "contains [] k = (k = [])"
| "contains (c # cs) k = (startswith (c # cs) k \<or> contains cs k)"

text \<open>\<open>k in variables\<close> for a string \<open>k\<close>.\<close>

definition in_vars :: "jval \<Rightarrow> string \<Rightarrow> bool result" where
  "in_vars variables k =
     (case variables of
        JObj d \<Rightarrow> Inr (k \<in> set (map fst d))
      | JStr s \<Rightarrow> Inr (contains s k)
      | JList l \<Rightarrow> Inr (JStr k \<in> set l)
      | _ \<Rightarrow> Inl TypeError)"

text \<open>\<open>variables[k]\<close> for a string \<open>k\<close>.\<close>

definition get_item :: "jval \<Rightarrow> string \<Rightarrow> jval result" where
  "get_item variables k =
     (case variables of
        JObj d \<Rightarrow> (case map_of d k of None \<Rightarrow> Inl (KeyError k) | Some v \<Rightarrow> Inr v)
      | _ \<Rightarrow> Inl TypeError)"

text \<open>\<open>k in variables and isinstance(variables[k], list)\<close>, with the list when it holds.\<close>

definition lookup_list :: "jval \<Rightarrow> string \<Rightarrow> jval list option result" where
  "lookup_list variables k =
     (case in_vars variables k of
        Inl e \<Rightarrow> Inl e
      | Inr False \<Rightarrow> Inr None
      | Inr True \<Rightarrow>
          (case get_item variables k of
             Inl e \<Rightarrow> Inl e
           | Inr (JList l) \<Rightarrow> Inr (Some l)
           | Inr _ \<Rightarrow> Inr None))"

text \<open>\<open>{**a, **b}\<close>.\<close>

definition dict_merge :: "jval \<Rightarrow> jval \<Rightarrow> jval result" where
  "dict_merge a b =
     (case a of
        JObj d \<Rightarrow>
          (case b of
             JObj d' \<Rightarrow> Inr (JObj (foldl (\<lambda>acc kv. dict_set acc (fst kv) (snd kv)) d d'))
           | _ \<Rightarrow> Inl TypeError)
      | _ \<Rightarrow> Inl TypeError)"

text \<open>A loop that extends \<open>results\<close> with what each step returns.\<close>

fun concat_result :: "('a \<Rightarrow> 'b list result) \<Rightarrow> 'a list \<Rightarrow> 'b list result" where
  "concat_result f [] = Inr []"
| "concat_result f (x # xs) =
     (case f x of
        Inl e \<Rightarrow> Inl e
      | Inr ys \<Rightarrow> (case concat_result f xs of Inl e \<Rightarrow> Inl e | Inr zs \<Rightarrow> Inr (ys @ zs)))"

subsection \<open>\<open>ContentTemplateFormatter\<close>\<close>

definition format_text :: "pylib \<Rightarrow> content_template \<Rightarrow> jval \<Rightarrow> content_block list result" where
  "format_text L template variables =
     (case variables of
        JObj kw \<Rightarrow>
          (case py_format L (content template) kw of
             Inl e \<Rightarrow> Inl e
           | Inr formatted_text \<Rightarrow> Inr [TextContentBlock formatted_text])
      | _ \<Rightarrow> Inl TypeError)"

text \<open>
  \<open>variables.get(name)\<close> needs a dictionary; a truthy value that is not a string is
  refused by the \<open>url: str\<close> field of \<open>ImageUrlObject\<close>.
\<close>

definition format_image :: "content_template \<Rightarrow> jval \<Rightarrow> content_block list result" where
  "format_image template variables =
     (case variables of
        JObj d \<Rightarrow>
          (let image_data = (case map_of d (input_name template) of None \<Rightarrow> JNull | Some v \<Rightarrow> v)
           in if truthy image_data then
                (case image_data of
                   JStr u \<Rightarrow> Inr [ImageContentBlock (ImageUrlObject u None [])]
                 | _ \<Rightarrow> Inl ValidationError)
              else Inr [])
      | _ \<Rightarrow> Inl AttributeError)"

definition content_format :: "pylib \<Rightarrow> content_template \<Rightarrow> jval \<Rightarrow> content_block list result" where
  "content_format L content_template variables =
     (case content_template of
        TextTemplate _ _ \<Rightarrow> format_text L content_template variables
      | ImageTemplate _ \<Rightarrow> format_image content_template variables)"

subsection \<open>\<open>ContentTemplateGroupFormatter._find_iteration_source\<close>\<close>

text \<open>The names inserted into \<open>all_vars\<close>, in the order of insertion.\<close>

fun collect_vars :: "group_item list \<Rightarrow> string list" where
  "collect_vars [] = []"
| "collect_vars (Content (TextTemplate c ivs) # rest) = ivs @ collect_vars rest"
| "collect_vars (Content (ImageTemplate n) # rest) = n # collect_vars rest"
| "collect_vars (Nested g # rest) = collect_vars rest"

text \<open>Strategy 1: the dictionary \<open>list_vars\<close>.\<close>

fun find_list_vars ::
  "jval \<Rightarrow> string list \<Rightarrow> (string \<times> jval list) list \<Rightarrow> (string \<times> jval list) list result" where
  "find_list_vars variables [] list_vars = Inr list_vars"
| "find_list_vars variables (var_name # rest) list_vars =
     (case lookup_list variables var_name of
        Inl e \<Rightarrow> Inl e
      | Inr None \<Rightarrow> find_list_vars variables rest list_vars
      | Inr (Some l) \<Rightarrow> find_list_vars variables rest (dict_set list_vars var_name l))"

text \<open>Strategy 2: the first list in the scope whose first element is a dictionary with one of the names.\<close>

fun find_any_list :: "(string \<times> jval) list \<Rightarrow> string list \<Rightarrow> jval list" where
  "find_any_list [] all_vars = []"
| "find_any_list ((key, value) # rest) all_vars =
     (case value of
        JList (JObj first # others) \<Rightarrow>
          if list_ex (\<lambda>var. var \<in> set (map fst first)) all_vars then JObj first # others
          else find_any_list rest all_vars
      | _ \<Rightarrow> find_any_list rest all_vars)"

text \<open>The parallel lists: \<open>iter_vars\<close> for index \<open>i\<close>.\<close>

fun zip_row :: "jval \<Rightarrow> nat \<Rightarrow> string list \<Rightarrow> (string \<times> jval) list \<Rightarrow> jval result" where
  "zip_row variables i [] iter_vars = Inr (JObj iter_vars)"
| "zip_row variables i (var_name # rest) iter_vars =
     (case in_vars variables var_name of
        Inl e \<Rightarrow> Inl e
      | Inr False \<Rightarrow> zip_row variables i rest iter_vars
      | Inr True \<Rightarrow>
          (case get_item variables var_name of
             Inl e \<Rightarrow> Inl e
           | Inr (JList l) \<Rightarrow>
               if i < length l then zip_row variables i rest (dict_set iter_vars var_name (l ! i))
               else Inl IndexError
           | Inr v \<Rightarrow> zip_row variables i rest (dict_set iter_vars var_name v)))"

definition is_dict :: "jval \<Rightarrow> bool" where
  "is_dict v = (case v of JObj _ \<Rightarrow> True | _ \<Rightarrow> False)"

definition find_iteration_source :: "pylib \<Rightarrow> iterable_group \<Rightarrow> jval \<Rightarrow> jval list result" where
  "find_iteration_source L grp variables =
     (if (case input_key grp of None \<Rightarrow> False | Some k \<Rightarrow> k \<noteq> []) then
        (case lookup_list variables (the (input_key grp)) of
           Inl e \<Rightarrow> Inl e
         | Inr None \<Rightarrow> Inr []
         | Inr (Some iteration_list) \<Rightarrow>
             if iteration_list \<noteq> [] \<and> is_dict (hd iteration_list) then Inr iteration_list
             else Inr (map (\<lambda>item. JObj [(the (input_key grp), item)]) iteration_list))
      else if collect_vars (items grp) = [] then Inr []
      else
        (let all_vars = set_iter L (collect_vars (items grp))
         in case find_list_vars variables all_vars [] of
              Inl e \<Rightarrow> Inl e
            | Inr [] \<Rightarrow>
                (case variables of
                   JObj d \<Rightarrow> Inr (find_any_list d all_vars)
                 | _ \<Rightarrow> Inl AttributeError)
            | Inr ((first_list_name, first_list) # others) \<Rightarrow>
                if first_list \<noteq> [] \<and> is_dict (hd first_list) then Inr first_list
                else map_result (\<lambda>i. zip_row variables i all_vars []) [0..<length first_list]))"

subsection \<open>\<open>ContentTemplateGroupFormatter.format\<close>\<close>

fun format_iterable :: "pylib \<Rightarrow> iterable_group \<Rightarrow> jval \<Rightarrow> content_block list result"
and format_rows :: "pylib \<Rightarrow> group_item list \<Rightarrow> jval \<Rightarrow> jval list \<Rightarrow> content_block list result"
and format_items :: "pylib \<Rightarrow> group_item list \<Rightarrow> jval \<Rightarrow> content_block list result" where
  "format_iterable L (IterableContentTemplateGroup its key) variables =
     (case find_iteration_source L (IterableContentTemplateGroup its key) variables of
        Inl e \<Rightarrow> Inl e
      | Inr iteration_source \<Rightarrow> format_rows L its variables iteration_source)"
| "format_rows L its variables [] = Inr []"
| "format_rows L its variables (item_vars # rest) =
     (case dict_merge variables item_vars of
        Inl e \<Rightarrow> Inl e
      | Inr merged_vars \<Rightarrow>
          (case format_items L its merged_vars of
             Inl e \<Rightarrow> Inl e
           | Inr blocks \<Rightarrow>
               (case format_rows L its variables rest of
                  Inl e \<Rightarrow> Inl e
                | Inr others \<Rightarrow> Inr (blocks @ others))))"
| "format_items L [] merged_vars = Inr []"
| "format_items L (Content t # rest) merged_vars =
     (case content_format L t merged_vars of
        Inl e \<Rightarrow> Inl e
      | Inr blocks \<Rightarrow>
          (case format_items L rest merged_vars of
             Inl e \<Rightarrow> Inl e
           | Inr others \<Rightarrow> Inr (blocks @ others)))"
| "format_items L (Nested g # rest) merged_vars =
     (case format_iterable L g merged_vars of
        Inl e \<Rightarrow> Inl e
      | Inr blocks \<Rightarrow>
          (case format_items L rest merged_vars of
             Inl e \<Rightarrow> Inl e
           | Inr others \<Rightarrow> Inr (blocks @ others)))"

definition format_static :: "pylib \<Rightarrow> content_template list \<Rightarrow> jval \<Rightarrow> content_block list result" where
  "format_static L its variables = concat_result (\<lambda>item. content_format L item variables) its"

definition group_format :: "pylib \<Rightarrow> template_group \<Rightarrow> jval \<Rightarrow> content_block list result" where
  "group_format L grp variables =
     (case grp of
        StaticContentTemplateGroup its \<Rightarrow> format_static L its variables
      | IterableGroup g \<Rightarrow> format_iterable L g variables)"

subsection \<open>\<open>PromptTemplateFormatter.format\<close>\<close>

definition iteration_data_of :: "string option \<Rightarrow> (string \<times> jval) list \<Rightarrow> jval list" where
  "iteration_data_of key input_data =
     (if (case key of None \<Rightarrow> False | Some k \<Rightarrow> k \<noteq> []) then
        (case map_of input_data (the key) of
           Some iteration_data \<Rightarrow>
             (case iteration_data of JList l \<Rightarrow> l | _ \<Rightarrow> [iteration_data])
         | None \<Rightarrow> [])
      else [])"

definition format_message ::
  "pylib \<Rightarrow> message_template \<Rightarrow> (string \<times> jval) list \<Rightarrow> (string \<times> content_block list) result" where
  "format_message L message_template input_data =
     (case message_template of
        SingleContentMessageTemplate role c \<Rightarrow>
          map_sum id (Pair role) (content_format L c (JObj input_data))
      | IterableContentMessageTemplate role contents key \<Rightarrow>
          map_sum id (Pair role)
            (concat_result
               (\<lambda>document_data.
                  concat_result (\<lambda>content_group. group_format L content_group document_data)
                    contents)
               (iteration_data_of key input_data)))"

definition prompt_format ::
  "pylib \<Rightarrow> message_template list \<Rightarrow> (string \<times> jval) list
     \<Rightarrow> (string \<times> content_block list) list result" where
  "prompt_format L templates input_data =
     map_result (\<lambda>message_template. format_message L message_template input_data) templates"

section \<open>The older formatter (\<open>formatter/base.py\<close>)\<close>

text \<open>Its text item has a \<open>value\<close> and \<open>input_variables\<close> (\<open>types/prompt/template.py\<close>).\<close>

datatype text_item =
    TextItem (item_value: string) (item_input_variables: "string list")

definition format_string :: "pylib \<Rightarrow> string \<Rightarrow> (string \<times> jval) list \<Rightarrow> string \<Rightarrow> string result" where
  "format_string L v variables template_format =
     (if template_format = ''f-string'' then py_format L v variables
      else if template_format = ''jinja2'' then jinja_render L v variables
      else Inr v)"

text \<open>\<open>{k: variables[k] for k in item.input_variables if k in variables}\<close>.\<close>

definition filter_vars :: "string list \<Rightarrow> (string \<times> jval) list \<Rightarrow> (string \<times> jval) list" where
  "filter_vars ivs variables =
     foldl (\<lambda>d k. case map_of variables k of None \<Rightarrow> d | Some v \<Rightarrow> dict_set d k v) [] ivs"

definition process_text_template ::
  "pylib \<Rightarrow> text_item \<Rightarrow> (string \<times> jval) list \<Rightarrow> string \<Rightarrow> jval list result" where
  "process_text_template L item variables template_format =
     (let filtered_vars =
            (if item_input_variables item \<noteq> [] then filter_vars (item_input_variables item) variables
             else [])
      in case format_string L (item_value item) filtered_vars template_format of
           Inl e \<Rightarrow> Inl e
         | Inr formatted_text \<Rightarrow>
             Inr [JObj [(''type'', JStr ''text''), (''text'', JStr formatted_text)]])"

section \<open>An instance of the library parameters\<close>

text \<open>
  The examples below are evaluated with this instance. It answers only what is certain
  (a scalar of its own type is valid, a set may be iterated in insertion order) and fails
  everywhere else; no example reaches the failing parts.
\<close>

definition sample_scalar_ok :: "prim \<Rightarrow> jval \<Rightarrow> bool" where
  "sample_scalar_ok p v =
     (case p of
        PStr \<Rightarrow> (case v of JStr _ \<Rightarrow> True | _ \<Rightarrow> False)
      | PInt \<Rightarrow> (case v of JInt _ \<Rightarrow> True | _ \<Rightarrow> False)
      | PFloat \<Rightarrow> (case v of JFloat _ \<Rightarrow> True | JInt _ \<Rightarrow> True | _ \<Rightarrow> False)
      | PBool \<Rightarrow> (case v of JBool _ \<Rightarrow> True | _ \<Rightarrow> False))"

definition sample_lib :: pylib where
  "sample_lib =
     \<lparr>int_of_str = (\<lambda>s. Inl (ValueError ''invalid literal for int()'')),
      int_of_float = (\<lambda>r. Inl (ValueError ''cannot convert float to integer'')),
      float_of_str = (\<lambda>s. Inl (ValueError ''could not convert string to float'')),
      float_of_int = (\<lambda>n. Inl (ValueError ''int too large to convert to float'')),
      repr_of = (\<lambda>v. ''...''),
      format_other = (\<lambda>t kw. Inl (ValueError ''unsupported replacement field'')),
      jinja_render = (\<lambda>t kw. Inl (ValueError ''no template engine'')),
      set_iter = remdups,
      scalar_ok = sample_scalar_ok\<rparr>"

section \<open>Message converters (\<open>template_formatter/message_converter.py\<close>)\<close>

subsection \<open>\<open>AnthropicMessageConverter.convert\<close>\<close>

text \<open>
  The media type of a data-URL header: the default unless the header holds a colon and a
  semicolon and the text picked by \<open>header.split(":")[1].split(";")[0]\<close> is not empty.
\<close>

definition media_type_of :: "string \<Rightarrow> string result" where
  "media_type_of header =
     (if CHR '':'' \<in> set header \<and> CHR '';'' \<in> set header then
        (case split_char CHR '':'' header of
           _ # second # _ \<Rightarrow>
             (case split_char CHR '';'' second of
                media_part # _ \<Rightarrow>
                  Inr (if media_part \<noteq> [] then media_part else ''image/png'')
              | [] \<Rightarrow> Inl IndexError)
         | _ \<Rightarrow> Inl IndexError)
      else Inr ''image/png'')"

definition base64_source :: "string \<Rightarrow> string \<Rightarrow> jval" where
  "base64_source media_type data =
     JObj [(''type'', JStr ''image''),
           (''source'', JObj [(''type'', JStr ''base64''),
                              (''media_type'', JStr media_type),
                              (''data'', JStr data)])]"

definition url_source :: "string \<Rightarrow> jval" where
  "url_source u =
     JObj [(''type'', JStr ''image''),
           (''source'', JObj [(''type'', JStr ''url''), (''url'', JStr u)])]"

text \<open>
  One block of the inner loop: the items it appends to \<open>content_items\<close>. A data URL
  with no comma appends nothing (the \<open>if len(parts) == 2\<close> has no \<open>else\<close>).
\<close>

definition anthropic_block :: "content_block \<Rightarrow> jval list result" where
  "anthropic_block block =
     (case block of
        TextContentBlock t \<Rightarrow> Inr [JObj [(''type'', JStr ''text''), (''text'', JStr t)]]
      | ImageContentBlock iu \<Rightarrow>
          (let u = (case iu of ImageUrlObject u' _ _ \<Rightarrow> u' | UrlStr u' \<Rightarrow> u')
           in if startswith u ''data:'' then
                (case split_once CHR '','' u of
                   [header, data] \<Rightarrow>
                     (case media_type_of header of
                        Inl e \<Rightarrow> Inl e
                      | Inr media_type \<Rightarrow> Inr [base64_source media_type data])
                 | _ \<Rightarrow> Inr [])
              else Inr [url_source u]))"

fun anthropic_blocks :: "content_block list \<Rightarrow> jval list result" where
  "anthropic_blocks [] = Inr []"
| "anthropic_blocks (b # bs) =
     (case anthropic_block b of
        Inl e \<Rightarrow> Inl e
      | Inr new_items \<Rightarrow>
          (case anthropic_blocks bs of
             Inl e \<Rightarrow> Inl e
           | Inr rest \<Rightarrow> Inr (new_items @ rest)))"

fun anthropic_convert :: "(string \<times> content_block list) list \<Rightarrow> jval list result" where
  "anthropic_convert [] = Inr []"
| "anthropic_convert ((role, content_blocks) # rest) =
     (case anthropic_blocks content_blocks of
        Inl e \<Rightarrow> Inl e
      | Inr content_items \<Rightarrow>
          (case anthropic_convert rest of
             Inl e \<Rightarrow> Inl e
           | Inr messages \<Rightarrow>
               Inr (JObj [(''role'', JStr role), (''content'', JList content_items)]
                    # messages)))"

subsection \<open>\<open>MessageConverterFactory\<close>\<close>






section \<open>Notions used in the statements about the model maker\<close>

declare get_dtype.simps [simp del] build_model.simps [simp del]

text \<open>
  A dtype name that \<open>_get_dtype\<close> treats as a custom type: neither a primitive name nor
  \<open>bbox\<close>.
\<close>

definition is_custom :: "string \<Rightarrow> bool" where
  "is_custom d = (get_primitive_dtype d = None \<and> lower d \<noteq> ''bbox'')"








subsection \<open>Invariants of the build\<close>

text \<open>
  What a call leaves untouched: the registry always, and the in-progress set when the call
  returns normally.
\<close>

definition frame :: "maker_state \<Rightarrow> 'a result \<Rightarrow> maker_state \<Rightarrow> bool" where
  "frame s r s' =
     (custom_dtype_specs s' = custom_dtype_specs s
      \<and> (case r of Inr _ \<Rightarrow> building s' = building s | Inl _ \<Rightarrow> True))"

text \<open>The registered custom types that are not being built: a bound on the descent.\<close>

definition todo :: "maker_state \<Rightarrow> nat" where
  "todo s = card (fst ` set (custom_dtype_specs s) - building s)"

definition forbids :: "model list \<Rightarrow> bool" where
  "forbids ms = list_all (\<lambda>m. model_extra m = ExtraForbid) ms"








subsection \<open>Decimal digits read back\<close>




subsection \<open>Example configurations\<close>

definition fresh_maker :: maker_state where
  "fresh_maker = \<lparr>custom_models = [], building = {}, custom_dtype_specs = []\<rparr>"

definition plain_field_spec :: "string \<Rightarrow> string \<Rightarrow> field_spec" where
  "plain_field_spec n d =
     \<lparr>name = n, spec = \<lparr>dim = 0, dtype = d, allowed_values = None, optional = False\<rparr>\<rparr>"






text \<open>The root has a field of the custom type \<open>C\<close>, which has one boolean field.\<close>

definition nested_config :: schema_config where
  "nested_config =
     \<lparr>schema_name = ''Root'', schema_fields = [plain_field_spec ''c'' ''C''],
      custom_dtypes = [\<lparr>type_name = ''C'', type_fields = [plain_field_spec ''b'' ''bool'']\<rparr>]\<rparr>"

text \<open>
  A maker that an earlier run left behind: \<open>C\<close> cached as something else and still marked
  as being built.
\<close>

definition used_maker :: maker_state where
  "used_maker =
     \<lparr>custom_models = [(''C'', Bbox)], building = {''C''},
      custom_dtype_specs = [(''Old'', \<lparr>type_name = ''Old'', type_fields = []\<rparr>)]\<rparr>"

text \<open>What a run on \<open>nested_config\<close> returns and leaves.\<close>

definition nested_root :: model where
  "nested_root =
     Model ''Root'' ExtraForbid
       [MField ''c'' (TModel (Model ''C'' ExtraForbid [MField ''b'' (TPrim PBool) True])) True]"

definition nested_state :: maker_state where
  "nested_state =
     \<lparr>custom_models = [(''C'', Model ''C'' ExtraForbid [MField ''b'' (TPrim PBool) True])],
      building = {},
      custom_dtype_specs =
        [(''C'', \<lparr>type_name = ''C'', type_fields = [plain_field_spec ''b'' ''bool'']\<rparr>)]\<rparr>"

lemmas eval_maker = make_def register_custom_dtypes_def build_model.simps get_dtype.simps
  get_primitive_dtype_def lower_def lower_char_def field_dtype_def apply_allowed_values_def
  call_type_def coerce_def expand_dims_def create_dynamic_enum_def create_model_def
  plain_field_spec_def fresh_maker_def

section \<open>Notions used in the statements about the template formatter\<close>

text \<open>The list that a dictionary binds a name to, if it binds it to a list.\<close>

definition list_of :: "(string \<times> jval) list \<Rightarrow> string \<Rightarrow> jval list option" where
  "list_of d k = (case map_of d k of Some (JList l) \<Rightarrow> Some l | _ \<Rightarrow> None)"

text \<open>Example groups: one iterating over \<open>rows\<close>, one over the parallel lists \<open>a\<close> and \<open>b\<close>.\<close>

definition rows_group :: iterable_group where
  "rows_group = IterableContentTemplateGroup [Content (TextTemplate ''v={x}'' [''x''])] (Some ''rows'')"

text \<open>A group whose \<open>input_key\<close> is the empty string and whose item uses no variable.\<close>

definition unnamed_key_group :: iterable_group where
  "unnamed_key_group = IterableContentTemplateGroup [Content (TextTemplate ''row'' [])] (Some [])"

definition pair_group :: iterable_group where
  "pair_group = IterableContentTemplateGroup [Content (TextTemplate ''{a}-{b}'' [''a'', ''b''])] None"

lemmas eval_format = find_iteration_source_def lookup_list_def in_vars_def get_item_def
  is_dict_def dict_merge_def content_format_def format_text_def format_image_def
  plain_field_def field_stop_def all_digits_def str_of_int_def str_of_nat.simps digit_def
  group_format_def format_static_def format_message_def iteration_data_of_def

section \<open>Properties of the message converters\<close>

lemma map_of_dict_set:
  "map_of (dict_set d k v) = (map_of d)(k \<mapsto> v)"
  by (induction d k v rule: dict_set.induct) auto

lemma split_char_not_Nil: "split_char c s \<noteq> []"
  by (induction s) (auto split: list.splits)

lemma hd_split_char: "hd (split_char c s) = takeWhile (\<lambda>x. x \<noteq> c) s"
  by (induction s) (auto simp: split_char_not_Nil split: list.splits)

lemma takeWhile_takeWhile_conj:
  "takeWhile P (takeWhile Q xs) = takeWhile (\<lambda>x. Q x \<and> P x) xs"
  by (induction xs) auto

lemma split_once_no_sep: "c \<notin> set s \<Longrightarrow> split_once c s = [s]"
  by (simp add: split_once_def)

lemma split_once_sep:
  "c \<notin> set h \<Longrightarrow> split_once c (h @ c # d) = [h, d]"
  by (simp add: split_once_def takeWhile_tail dropWhile_append)

text \<open>
  The media type of a header that starts with \<open>data:\<close>: the text after that colon up to
  the next colon or semicolon, when the header has a semicolon and that text is not empty.
\<close>

lemma media_type_of_data:
  "media_type_of (''data:'' @ h') =
     Inr (let m = takeWhile (\<lambda>x. x \<noteq> CHR '':'' \<and> x \<noteq> CHR '';'') h'
          in if CHR '';'' \<in> set h' \<and> m \<noteq> [] then m else ''image/png'')"
proof -
  have sp: "split_char CHR '':'' (''data:'' @ h') = ''data'' # split_char CHR '':'' h'"
    by (simp add: split_char_not_Nil split: list.splits)
  obtain a rest where ar: "split_char CHR '':'' h' = a # rest"
    by (cases "split_char CHR '':'' h'") (auto simp: split_char_not_Nil)
  have a: "a = takeWhile (\<lambda>x. x \<noteq> CHR '':'') h'"
    using hd_split_char [of "CHR '':''" h'] ar by simp
  obtain m ms where mm: "split_char CHR '';'' a = m # ms"
    by (cases "split_char CHR '';'' a") (auto simp: split_char_not_Nil)
  have m: "m = takeWhile (\<lambda>x. x \<noteq> CHR '':'' \<and> x \<noteq> CHR '';'') h'"
    using hd_split_char [of "CHR '';''" a] mm a by (simp add: takeWhile_takeWhile_conj)
  show ?thesis
    unfolding media_type_of_def sp ar using mm m by (simp add: Let_def)
qed

text \<open>
  C6, as amended. For an image block whose value is \<open>u\<close>: if \<open>u\<close> does not start with
  \<open>data:\<close>, the Anthropic converter emits a URL source object; if it starts with
  \<open>data:\<close> and has no comma, it emits nothing for the block; if it is
  \<open>data:\<close>, a header rest \<open>h'\<close> without comma, a comma and \<open>d\<close>, it emits a base64
  source object whose data is \<open>d\<close> and whose media type is the text of \<open>h'\<close> up to
  its first colon or semicolon, or \<open>image/png\<close> when \<open>h'\<close> has no semicolon or that
  text is empty.
\<close>

theorem anthropic_image_block:
  fixes u :: string
  assumes blk: "block = ImageContentBlock (UrlStr u)
                \<or> block = ImageContentBlock (ImageUrlObject u dt fm)"
  shows "(\<not> startswith u ''data:'' \<longrightarrow> anthropic_block block = Inr [url_source u]) \<and>
         (startswith u ''data:'' \<and> CHR '','' \<notin> set u \<longrightarrow> anthropic_block block = Inr []) \<and>
         (u = ''data:'' @ h' @ CHR '','' # d \<and> CHR '','' \<notin> set h' \<longrightarrow>
            anthropic_block block =
              Inr [base64_source
                    (let m = takeWhile (\<lambda>x. x \<noteq> CHR '':'' \<and> x \<noteq> CHR '';'') h'
                     in if CHR '';'' \<in> set h' \<and> m \<noteq> [] then m else ''image/png'') d])"
proof (intro conjI impI)
  assume "\<not> startswith u ''data:''"
  then show "anthropic_block block = Inr [url_source u]"
    using blk by (auto simp: anthropic_block_def)
next
  assume "startswith u ''data:'' \<and> CHR '','' \<notin> set u"
  then show "anthropic_block block = Inr []"
    using blk by (auto simp: anthropic_block_def split_once_no_sep)
next
  assume "u = ''data:'' @ h' @ CHR '','' # d \<and> CHR '','' \<notin> set h'"
  then have u: "u = (''data:'' @ h') @ CHR '','' # d"
    and nc: "CHR '','' \<notin> set (''data:'' @ h')"
    by auto
  have sw: "startswith u ''data:''"
    unfolding u by (simp add: startswith_def)
  have so: "split_once CHR '','' u = [''data:'' @ h', d]"
    unfolding u using nc by (rule split_once_sep)
  show "anthropic_block block =
              Inr [base64_source
                    (let m = takeWhile (\<lambda>x. x \<noteq> CHR '':'' \<and> x \<noteq> CHR '';'') h'
                     in if CHR '';'' \<in> set h' \<and> m \<noteq> [] then m else ''image/png'') d]"
    using blk sw so media_type_of_data [of h'] by (auto simp: anthropic_block_def Let_def)
qed

text \<open>
  The three cases at concrete values; the last is the example of the specification,
  \<open>data:image/png;base64,QUJD\<close>.
\<close>

theorem anthropic_image_block_witness:
  "anthropic_block (ImageContentBlock (UrlStr ''http://x/y.png'')) =
     Inr [url_source ''http://x/y.png'']
   \<and> anthropic_block (ImageContentBlock (UrlStr ''data:image/png'')) = Inr []
   \<and> anthropic_block (ImageContentBlock (ImageUrlObject ''data:image/png;base64,QUJD'' None [])) =
       Inr [JObj [(''type'', JStr ''image''),
                  (''source'', JObj [(''type'', JStr ''base64''),
                                     (''media_type'', JStr ''image/png''),
                                     (''data'', JStr ''QUJD'')])]]"
  using anthropic_image_block [of "ImageContentBlock (UrlStr ''http://x/y.png'')" "''http://x/y.png''"]
    anthropic_image_block [of "ImageContentBlock (UrlStr ''data:image/png'')" "''data:image/png''"]
    anthropic_image_block [of "ImageContentBlock (ImageUrlObject ''data:image/png;base64,QUJD'' None [])"
       "''data:image/png;base64,QUJD''" None "[]" "''image/png;base64''" "''QUJD''"]
  by (simp add: startswith_def base64_source_def)

text \<open>
  C6 as stated fails: a value that starts with \<open>data:\<close> and has no comma yields no
  base64 source object (the message's content is empty), and with a second colon before
  the semicolon the media type is not the text between the first colon and the first
  semicolon (\<open>a\<close>, not \<open>a:b\<close>).
\<close>

theorem anthropic_data_url_counterexample:
  "anthropic_convert [(''user'', [ImageContentBlock (UrlStr ''data:image/png;base64'')])] =
     Inr [JObj [(''role'', JStr ''user''), (''content'', JList [])]]
   \<and> anthropic_block (ImageContentBlock (UrlStr ''data:a:b;base64,QUJD'')) =
     Inr [base64_source ''a'' ''QUJD'']"
  by (simp add: anthropic_block_def startswith_def split_once_def media_type_of_def)




section \<open>Properties of the model maker\<close>

subsection \<open>The outcomes of one call\<close>

text \<open>
  Every way \<open>_get_dtype\<close> can come back: a primitive, the bounding box, a cache hit, the
  recursion error, an unknown name, or a descent into the custom type that failed, that
  built its model, or (never, as \<open>maker_errors\<close> shows) found its name gone from the
  in-progress set.
\<close>

lemma get_dtype_SomeE:
  assumes "get_dtype L fuel d s = Some (r, s')"
  obtains
    (prim) p where "get_primitive_dtype d = Some p" "r = Inr (TPrim p)" "s' = s"
  | (bbox) "get_primitive_dtype d = None" "lower d = ''bbox''" "r = Inr (TModel Bbox)" "s' = s"
  | (cached) m where "is_custom d" "map_of (custom_models s) d = Some m"
      "r = Inr (TModel m)" "s' = s"
  | (recursive) "is_custom d" "map_of (custom_models s) d = None" "d \<in> building s"
      "r = Inl (ValueError (''Recursive dtype definition is not allowed: '' @ d))" "s' = s"
  | (unknown) "is_custom d" "map_of (custom_models s) d = None" "d \<notin> building s"
      "map_of (custom_dtype_specs s) d = None"
      "r = Inl (ValueError (''dtype '' @ repr_of L (JStr d) @ '' not supported''))" "s' = s"
  | (failed) c k e where "is_custom d" "map_of (custom_models s) d = None" "d \<notin> building s"
      "map_of (custom_dtype_specs s) d = Some c" "fuel = Suc k"
      "build_model L k (type_name c) (type_fields c) (s\<lparr>building := insert d (building s)\<rparr>)
         = Some (Inl e, s')"
      "r = Inl e"
  | (built) c k m s1 where "is_custom d" "map_of (custom_models s) d = None" "d \<notin> building s"
      "map_of (custom_dtype_specs s) d = Some c" "fuel = Suc k"
      "build_model L k (type_name c) (type_fields c) (s\<lparr>building := insert d (building s)\<rparr>)
         = Some (Inr m, s1)"
      "d \<in> building s1" "r = Inr (TModel m)"
      "s' = s1\<lparr>custom_models := dict_set (custom_models s1) d m,
                building := building s1 - {d}\<rparr>"
  | (not_building) c k m s1 where "is_custom d" "map_of (custom_models s) d = None"
      "d \<notin> building s"
      "map_of (custom_dtype_specs s) d = Some c" "fuel = Suc k"
      "build_model L k (type_name c) (type_fields c) (s\<lparr>building := insert d (building s)\<rparr>)
         = Some (Inr m, s1)"
      "d \<notin> building s1" "r = Inl (KeyError d)"
      "s' = s1\<lparr>custom_models := dict_set (custom_models s1) d m\<rparr>"
proof (cases "get_primitive_dtype d")
  case (Some p)
  with assms show ?thesis by (intro prim [of p]) (simp_all add: get_dtype.simps)
next
  case None
  note np = this
  show ?thesis
  proof (cases "lower d = ''bbox''")
    case True
    with assms np show ?thesis by (intro bbox) (simp_all add: get_dtype.simps)
  next
    case False
    then have cu: "is_custom d" using np by (simp add: is_custom_def)
    show ?thesis
    proof (cases "map_of (custom_models s) d")
      case (Some m)
      with assms np False cu show ?thesis by (intro cached [of m]) (simp_all add: get_dtype.simps)
    next
      case None
      note nc = this
      show ?thesis
      proof (cases "d \<in> building s")
        case True
        with assms np False cu nc show ?thesis
          by (intro recursive) (simp_all add: get_dtype.simps)
      next
        case False
        note nb = this
        show ?thesis
        proof (cases "map_of (custom_dtype_specs s) d")
          case None
          with assms np \<open>lower d \<noteq> ''bbox''\<close> cu nc nb show ?thesis
            by (intro unknown) (simp_all add: get_dtype.simps)
        next
          case (Some c)
          note sc = this
          have eq: "get_dtype L fuel d s =
             (case fuel of 0 \<Rightarrow> None
              | Suc k \<Rightarrow>
                 (case build_model L k (type_name c) (type_fields c)
                         (s\<lparr>building := insert d (building s)\<rparr>) of
                    None \<Rightarrow> None
                  | Some (Inl e, s') \<Rightarrow> Some (Inl e, s')
                  | Some (Inr m, s') \<Rightarrow>
                      (let s'' = s'\<lparr>custom_models := dict_set (custom_models s') d m\<rparr>
                       in if d \<in> building s'' then
                            Some (Inr (TModel m), s''\<lparr>building := building s'' - {d}\<rparr>)
                          else Some (Inl (KeyError d), s''))))"
            using np \<open>lower d \<noteq> ''bbox''\<close> nc nb sc by (simp add: get_dtype.simps)
          show ?thesis
          proof (cases fuel)
            case 0
            with assms eq show ?thesis by simp
          next
            case (Suc k)
            note fk = this
            show ?thesis
            proof (cases "build_model L k (type_name c) (type_fields c)
                         (s\<lparr>building := insert d (building s)\<rparr>)")
              case None
              with assms eq fk show ?thesis by simp
            next
              case (Some a)
              obtain r1 s1 where a: "a = (r1, s1)" by (cases a)
              show ?thesis
              proof (cases r1)
                case (Inl e)
                with assms eq fk Some a have "r = Inl e" "s' = s1" by simp_all
                with Some a Inl cu nc nb sc fk show ?thesis by (intro failed [of c k e]) simp_all
              next
                case (Inr m)
                show ?thesis
                proof (cases "d \<in> building s1")
                  case True
                  with assms eq fk Some a Inr have "r = Inr (TModel m)"
                    "s' = s1\<lparr>custom_models := dict_set (custom_models s1) d m,
                              building := building s1 - {d}\<rparr>"
                    by (simp_all add: Let_def)
                  with Some a Inr cu nc nb sc fk True show ?thesis
                    by (intro built [of c k m s1]) simp_all
                next
                  case False
                  with assms eq fk Some a Inr have "r = Inl (KeyError d)"
                    "s' = s1\<lparr>custom_models := dict_set (custom_models s1) d m\<rparr>"
                    by (simp_all add: Let_def)
                  with Some a Inr cu nc nb sc fk False show ?thesis
                    by (intro not_building [of c k m s1]) simp_all
                qed
              qed
            qed
          qed
        qed
      qed
    qed
  qed
qed

lemma build_model_SomeE:
  assumes "build_model L fuel mn fs s = Some (r, s')"
  obtains
    (err) e where "build_fields L fuel mn fs [] s = Some (Inl e, s')" "r = Inl e"
  | (ok) d where "build_fields L fuel mn fs [] s = Some (Inr d, s')" "r = Inr (create_model mn d)"
  using assms
  by (auto simp: build_model.simps split: option.splits sum.splits prod.splits)

lemma build_fields_ConsE:
  assumes "build_fields L fuel mn (f # fs) acc s = Some (r, s')"
  obtains
    (dtype_err) e where "get_dtype L fuel (dtype (spec f)) s = Some (Inl e, s')" "r = Inl e"
  | (field_err) base e where "get_dtype L fuel (dtype (spec f)) s = Some (Inr base, s')"
      "field_dtype L mn f base = Inl e" "r = Inl e"
  | (continue) base s1 t where "get_dtype L fuel (dtype (spec f)) s = Some (Inr base, s1)"
      "field_dtype L mn f base = Inr t"
      "build_fields L fuel mn fs (dict_set acc (name f) (t, \<not> optional (spec f))) s1 = Some (r, s')"
  using assms
  by (auto split: option.splits sum.splits prod.splits)

subsection \<open>What a call leaves untouched\<close>

lemma maker_frame:
  "\<forall>r s'. get_dtype L fuel d s = Some (r, s') \<longrightarrow> frame s r s'"
  "\<forall>r s'. build_model L fuel mn fs s = Some (r, s') \<longrightarrow> frame s r s'"
  "\<forall>r s'. build_fields L fuel mn fs acc s = Some (r, s') \<longrightarrow> frame s r s'"
proof (induction L fuel d s and L fuel mn fs s and L fuel mn fs acc s
       rule: get_dtype_build_model_build_fields.induct)
  case (1 L fuel d s)
  show ?case
  proof (intro allI impI)
    fix r s' assume a: "get_dtype L fuel d s = Some (r, s')"
    then show "frame s r s'"
    proof (cases rule: get_dtype_SomeE)
      case (failed c k e)
      with 1 [of c k] show ?thesis by (auto simp: frame_def is_custom_def)
    next
      case (built c k m s1)
      with 1 [of c k] show ?thesis by (auto simp: frame_def is_custom_def)
    next
      case (not_building c k m s1)
      with 1 [of c k] show ?thesis by (auto simp: frame_def is_custom_def)
    qed (simp_all add: frame_def)
  qed
next
  case (2 L fuel mn fs s)
  show ?case
  proof (intro allI impI)
    fix r s' assume "build_model L fuel mn fs s = Some (r, s')"
    then show "frame s r s'"
      using 2 by (cases rule: build_model_SomeE) (auto simp: frame_def)
  qed
next
  case (3 L fuel mn acc s)
  show ?case by (simp add: frame_def)
next
  case (4 L fuel mn f fs acc s)
  show ?case
  proof (intro allI impI)
    fix r s' assume "build_fields L fuel mn (f # fs) acc s = Some (r, s')"
    then show "frame s r s'"
    proof (cases rule: build_fields_ConsE)
      case (dtype_err e)
      with 4(1) show ?thesis by (auto simp: frame_def)
    next
      case (field_err base e)
      with 4(1) show ?thesis by (auto simp: frame_def)
    next
      case (continue base s1 t)
      from 4(1) continue(1) have "frame s (Inr base :: pytype result) s1" by blast
      moreover from 4(2) [OF continue(1) refl refl continue(2)] continue(3)
      have "frame s1 r s'" by blast
      ultimately show ?thesis by (auto simp: frame_def split: sum.splits)
    qed
  qed
qed

subsection \<open>The build returns\<close>

text \<open>
  With one unit of fuel for every registered custom type that is not being built, no call
  runs out of fuel; \<open>make\<close> starts with that much, so it always returns.
\<close>

lemma todo_frame: "frame s (Inr x) s' \<Longrightarrow> todo s' = todo s"
  by (simp add: frame_def todo_def)

lemma todo_descend:
  assumes "map_of (custom_dtype_specs s) d = Some c" "d \<notin> building s" "todo s \<le> fuel"
  shows "\<exists>k. fuel = Suc k \<and> todo (s\<lparr>building := insert d (building s)\<rparr>) \<le> k"
proof -
  let ?K = "fst ` set (custom_dtype_specs s)"
  have dk: "d \<in> ?K - building s"
    using assms(1,2) by (auto dest: map_of_SomeD intro: rev_image_eqI)
  have fin: "finite (?K - building s)" by simp
  have "?K - insert d (building s) = (?K - building s) - {d}" by auto
  then have eq: "card (?K - insert d (building s)) = card (?K - building s) - 1"
    using dk fin by (simp add: card_Diff_singleton)
  have pos: "card (?K - building s) > 0"
    using dk fin by (auto simp: card_gt_0_iff)
  from assms(3) have le: "card (?K - building s) \<le> fuel" by (simp only: todo_def)
  from pos le obtain k where k: "fuel = Suc k" by (cases fuel) linarith+
  from eq pos le k have "card (?K - insert d (building s)) \<le> k" by linarith
  then have "todo (s\<lparr>building := insert d (building s)\<rparr>) \<le> k"
    unfolding todo_def by simp
  with k show ?thesis by blast
qed

lemma maker_total:
  "todo s \<le> fuel \<longrightarrow> get_dtype L fuel d s \<noteq> None"
  "todo s \<le> fuel \<longrightarrow> build_model L fuel mn fs s \<noteq> None"
  "todo s \<le> fuel \<longrightarrow> build_fields L fuel mn fs acc s \<noteq> None"
proof (induction L fuel d s and L fuel mn fs s and L fuel mn fs acc s
       rule: get_dtype_build_model_build_fields.induct)
  case (1 L fuel d s)
  show ?case
  proof
    assume le: "todo s \<le> fuel"
    show "get_dtype L fuel d s \<noteq> None"
    proof (cases "get_primitive_dtype d = None \<and> lower d \<noteq> ''bbox''
                  \<and> map_of (custom_models s) d = None \<and> d \<notin> building s
                  \<and> map_of (custom_dtype_specs s) d \<noteq> None")
      case False
      then show ?thesis
        by (subst get_dtype.simps) (auto split: option.splits)
    next
      case True
      then obtain c where c: "map_of (custom_dtype_specs s) d = Some c" by auto
      from todo_descend [OF c _ le] True obtain k where
        k: "fuel = Suc k" "todo (s\<lparr>building := insert d (building s)\<rparr>) \<le> k" by auto
      from 1 [of c k] True c k
      have "build_model L k (type_name c) (type_fields c)
              (s\<lparr>building := insert d (building s)\<rparr>) \<noteq> None" by simp
      then obtain r1 s1 where b: "build_model L k (type_name c) (type_fields c)
              (s\<lparr>building := insert d (building s)\<rparr>) = Some (r1, s1)" by auto
      show ?thesis
        by (subst get_dtype.simps) (use True c k b in \<open>simp add: Let_def split: sum.splits\<close>)
    qed
  qed
next
  case (2 L fuel mn fs s)
  then show ?case
    by (auto simp: build_model.simps split: option.splits sum.splits prod.splits)
next
  case (3 L fuel mn acc s)
  show ?case by simp
next
  case (4 L fuel mn f fs acc s)
  show ?case
  proof
    assume le: "todo s \<le> fuel"
    with 4(1) obtain r1 s1 where g: "get_dtype L fuel (dtype (spec f)) s = Some (r1, s1)"
      by auto
    show "build_fields L fuel mn (f # fs) acc s \<noteq> None"
    proof (cases r1)
      case (Inl e)
      with g show ?thesis by simp
    next
      case (Inr base)
      from maker_frame(1) g Inr have "frame s (Inr base :: pytype result) s1" by blast
      then have le1: "todo s1 \<le> fuel" using le by (simp add: todo_frame)
      show ?thesis
      proof (cases "field_dtype L mn f base")
        case (Inl e)
        with g Inr show ?thesis by simp
      next
        case (Inr t)
        from 4(2) [OF g [unfolded \<open>r1 = Inr base\<close>] refl refl Inr] le1
        show ?thesis using g \<open>r1 = Inr base\<close> Inr by simp
      qed
    qed
  qed
qed

lemma card_keys_le: "card (fst ` set d) \<le> length d"
  by (metis card_image_le card_length le_trans List.finite_set)


lemma building_register:
  "building (register_custom_dtypes cs s) = building s"
  by (induction cs arbitrary: s) (simp_all add: register_custom_dtypes_def)

lemma make_returns: "\<exists>r s'. make L config s = Some (r, s')"
proof -
  define s0 where "s0 = register_custom_dtypes (custom_dtypes config)
                 \<lparr>custom_models = [], building = {}, custom_dtype_specs = []\<rparr>"
  have "building s0 = {}" by (simp add: s0_def building_register)
  then have "todo s0 \<le> length (custom_dtype_specs s0)"
    by (simp add: todo_def card_keys_le)
  with maker_total(2) [of s0 "length (custom_dtype_specs s0)" L "schema_name config" "schema_fields config"]
  show ?thesis by (auto simp: make_def s0_def Let_def)
qed


lemma make_nested: "make sample_lib nested_config s = Some (Inr nested_root, nested_state)"
  by (simp add: eval_maker nested_config_def nested_root_def nested_state_def)

text \<open>
  C8. \<open>make\<close> returns, and what it returns (the validator or the error, and the state it
  leaves) does not depend on the state it finds: the three attributes are reset first. So
  a second call on the same instance gives the same validator as the first, and the two
  accept and reject the same candidate documents. This holds for every configuration,
  with or without cycles.
\<close>

theorem make_twice_same:
  "\<exists>r s1. make L config s = Some (r, s1) \<and> make L config s1 = Some (r, s1)
      \<and> (\<forall>s'. make L config s' = Some (r, s1))
      \<and> (\<forall>m m' s2 V doc. r = Inr m \<and> make L config s1 = Some (Inr m', s2) \<longrightarrow>
            validate_model V m' doc = validate_model V m doc)"
proof -
  obtain r s1 where "make L config s = Some (r, s1)" using make_returns by blast
  then show ?thesis by (auto simp: make_def)
qed

text \<open>
  A maker that an earlier run left with a stale cache entry and a stale in-progress mark
  for \<open>C\<close> builds what a fresh one builds, twice.
\<close>

theorem make_twice_same_witness:
  "make sample_lib nested_config used_maker = Some (Inr nested_root, nested_state)
   \<and> make sample_lib nested_config nested_state = Some (Inr nested_root, nested_state)"
  using make_twice_same [of sample_lib nested_config used_maker]
  by (simp add: make_nested)

subsection \<open>Every model class that is built forbids extra fields\<close>

lemma forbids_append [simp]: "forbids (xs @ ys) = (forbids xs \<and> forbids ys)"
  by (simp add: forbids_def)













subsection \<open>An enumeration accepts the coerced values\<close>


























subsection \<open>Recursive definitions\<close>











section \<open>Properties of the template formatter\<close>

subsection \<open>A dictionary as scope\<close>

lemma in_vars_dict: "in_vars (JObj d) k = Inr (map_of d k \<noteq> None)"
  by (simp add: in_vars_def map_of_eq_None_iff)

lemma lookup_list_dict:
  "lookup_list (JObj d) k =
     Inr (case map_of d k of Some (JList l) \<Rightarrow> Some l | _ \<Rightarrow> None)"
  by (auto simp: lookup_list_def in_vars_dict get_item_def split: option.splits jval.splits)

lemma concat_result_single: "concat_result f [x] = f x"
  by (cases "f x") simp_all

lemma format_rows_concat:
  "format_rows L its variables src =
     concat_result
       (\<lambda>item_vars. case dict_merge variables item_vars of
                      Inl e \<Rightarrow> Inl e
                    | Inr merged_vars \<Rightarrow> format_items L its merged_vars) src"
  by (induction src) (auto split: sum.splits)

lemma rows_example:
  "format_iterable L rows_group
     (JObj [(''rows'', JList [JObj [(''x'', JInt 1)], JObj [(''x'', JInt 2)]])]) =
   Inr [TextContentBlock ''v=1'', TextContentBlock ''v=2'']"
  by (simp add: rows_group_def eval_format)

text \<open>
  C3, as amended. Let an iterable group declare a non-empty \<open>input_key\<close> \<open>k\<close> and
  let the scope be the dictionary \<open>d\<close>. If \<open>d\<close> maps \<open>k\<close> to a list whose first
  element is a dictionary, the iteration source is that list; if it maps \<open>k\<close> to a list
  that is empty or starts with something else, each element is wrapped as the one-key
  dictionary under \<open>k\<close>; if \<open>k\<close> is missing or not bound to a list, the source is
  empty and the group yields no blocks. The blocks of the group are those of its items for
  each element of the source in order, each merged over the scope. With \<open>input_key\<close>
  \<open>rows\<close>, scope \<open>{"rows":[{"x":1},{"x":2}]}\<close> and item template \<open>v={x}\<close> the
  blocks are \<open>v=1\<close> then \<open>v=2\<close>.
\<close>

theorem iteration_source_input_key:
  assumes key: "input_key g = Some k" "k \<noteq> []"
  shows "(map_of d k = Some (JList (JObj first # rest)) \<longrightarrow>
            find_iteration_source L g (JObj d) = Inr (JObj first # rest))
       \<and> (map_of d k = Some (JList l) \<and> (l = [] \<or> \<not> is_dict (hd l)) \<longrightarrow>
            find_iteration_source L g (JObj d) = Inr (map (\<lambda>item. JObj [(k, item)]) l))
       \<and> (map_of d k = None \<or> (\<exists>v. map_of d k = Some v \<and> (\<forall>l'. v \<noteq> JList l')) \<longrightarrow>
            find_iteration_source L g (JObj d) = Inr [] \<and> format_iterable L g (JObj d) = Inr [])
       \<and> format_iterable L g (JObj d) =
            (case find_iteration_source L g (JObj d) of
               Inl e \<Rightarrow> Inl e
             | Inr iteration_source \<Rightarrow>
                 concat_result
                   (\<lambda>item_vars. case dict_merge (JObj d) item_vars of
                                  Inl e \<Rightarrow> Inl e
                                | Inr merged_vars \<Rightarrow> format_items L (items g) merged_vars)
                   iteration_source)
       \<and> format_iterable L
            (IterableContentTemplateGroup [Content (TextTemplate ''v={x}'' [''x''])] (Some ''rows''))
            (JObj [(''rows'', JList [JObj [(''x'', JInt 1)], JObj [(''x'', JInt 2)]])]) =
          Inr [TextContentBlock ''v=1'', TextContentBlock ''v=2'']"
proof -
  have fi: "format_iterable L g (JObj d) =
            (case find_iteration_source L g (JObj d) of
               Inl e \<Rightarrow> Inl e
             | Inr iteration_source \<Rightarrow>
                 concat_result
                   (\<lambda>item_vars. case dict_merge (JObj d) item_vars of
                                  Inl e \<Rightarrow> Inl e
                                | Inr merged_vars \<Rightarrow> format_items L (items g) merged_vars)
                   iteration_source)"
  proof (cases g)
    case (IterableContentTemplateGroup its key')
    show ?thesis
      unfolding IterableContentTemplateGroup iterable_group.sel
      by (simp add: format_rows_concat split: sum.splits)
  qed
  have src: "find_iteration_source L g (JObj d) =
      (case map_of d k of
         Some (JList l) \<Rightarrow>
           if l \<noteq> [] \<and> is_dict (hd l) then Inr l else Inr (map (\<lambda>item. JObj [(k, item)]) l)
       | _ \<Rightarrow> Inr [])"
    using key
    by (auto simp: find_iteration_source_def lookup_list_dict split: option.splits jval.splits)
  have c1: "map_of d k = Some (JList (JObj first # rest)) \<longrightarrow>
            find_iteration_source L g (JObj d) = Inr (JObj first # rest)"
    by (simp add: src is_dict_def)
  have c2: "map_of d k = Some (JList l) \<and> (l = [] \<or> \<not> is_dict (hd l)) \<longrightarrow>
            find_iteration_source L g (JObj d) = Inr (map (\<lambda>item. JObj [(k, item)]) l)"
    by (auto simp: src)
  have c3: "map_of d k = None \<or> (\<exists>v. map_of d k = Some v \<and> (\<forall>l'. v \<noteq> JList l')) \<longrightarrow>
            find_iteration_source L g (JObj d) = Inr []"
    by (auto simp: src split: jval.splits)
  from c3 fi have c3': "map_of d k = None \<or> (\<exists>v. map_of d k = Some v \<and> (\<forall>l'. v \<noteq> JList l')) \<longrightarrow>
            find_iteration_source L g (JObj d) = Inr [] \<and> format_iterable L g (JObj d) = Inr []"
    by auto
  from c1 c2 c3' fi rows_example [of L, unfolded rows_group_def] show ?thesis by blast
qed

text \<open>The cases of C3 at concrete scopes.\<close>

theorem iteration_source_input_key_witness:
  "find_iteration_source sample_lib rows_group
     (JObj [(''rows'', JList [JObj [(''x'', JInt 1)], JObj [(''x'', JInt 2)]])]) =
     Inr [JObj [(''x'', JInt 1)], JObj [(''x'', JInt 2)]]
   \<and> find_iteration_source sample_lib rows_group (JObj [(''rows'', JList [JInt 1, JInt 2])]) =
     Inr [JObj [(''rows'', JInt 1)], JObj [(''rows'', JInt 2)]]
   \<and> find_iteration_source sample_lib rows_group (JObj [(''other'', JInt 1)]) = Inr []
   \<and> format_iterable sample_lib rows_group (JObj [(''rows'', JStr ''text'')]) = Inr []
   \<and> format_iterable sample_lib rows_group
       (JObj [(''rows'', JList [JObj [(''x'', JInt 1)], JObj [(''x'', JInt 2)]])]) =
     Inr [TextContentBlock ''v=1'', TextContentBlock ''v=2'']"
  using iteration_source_input_key [where g = rows_group and k = "''rows''" and L = sample_lib
      and d = "[(''rows'', JList [JObj [(''x'', JInt 1)], JObj [(''x'', JInt 2)]])]"
      and first = "[(''x'', JInt 1)]" and rest = "[JObj [(''x'', JInt 2)]]" and l = "[]"]
    iteration_source_input_key [where g = rows_group and k = "''rows''" and L = sample_lib
      and d = "[(''rows'', JList [JInt 1, JInt 2])]"
      and first = "[]" and rest = "[]" and l = "[JInt 1, JInt 2]"]
    iteration_source_input_key [where g = rows_group and k = "''rows''" and L = sample_lib
      and d = "[(''other'', JInt 1)]" and first = "[]" and rest = "[]" and l = "[]"]
    iteration_source_input_key [where g = rows_group and k = "''rows''" and L = sample_lib
      and d = "[(''rows'', JStr ''text'')]" and first = "[]" and rest = "[]" and l = "[]"]
  by (simp add: rows_group_def is_dict_def)

text \<open>
  C3 as stated fails: an \<open>input_key\<close> that is the empty string is skipped by
  \<open>if group.input_key\<close>, and the group falls through to the detection by referenced
  names; with an item that references none, a scope that binds the empty string to a list
  of two dictionaries gives an empty iteration source and no blocks.
\<close>

theorem iteration_source_empty_key_counterexample:
  "find_iteration_source sample_lib unnamed_key_group
     (JObj [([], JList [JObj [(''x'', JInt 1)], JObj [(''x'', JInt 2)]])]) = Inr []
   \<and> format_iterable sample_lib unnamed_key_group
     (JObj [([], JList [JObj [(''x'', JInt 1)], JObj [(''x'', JInt 2)]])]) = Inr []"
  by (simp add: eval_format unnamed_key_group_def)

subsection \<open>Parallel lists\<close>

lemma lookup_list_list_of: "lookup_list (JObj d) k = Inr (list_of d k)"
  by (simp add: lookup_list_dict list_of_def)

text \<open>
  The first entry of \<open>list_vars\<close> is the first name, in the iteration order of
  \<open>all_vars\<close>, that the scope binds to a list.
\<close>

lemma find_list_vars_head:
  "list_of d n1 = Some l1 \<Longrightarrow>
     \<exists>rest. find_list_vars (JObj d) vs ((n1, l1) # acc) = Inr ((n1, l1) # rest)"
proof (induction vs arbitrary: acc)
  case Nil
  show ?case by simp
next
  case (Cons v vs)
  show ?case
  proof (cases "list_of d v")
    case None
    with Cons show ?thesis by (simp add: lookup_list_list_of)
  next
    case (Some l)
    show ?thesis
    proof (cases "v = n1")
      case True
      with Some Cons.prems have "l = l1" by simp
      with True Some Cons.IH [OF Cons.prems, of acc] show ?thesis
        by (simp add: lookup_list_list_of)
    next
      case False
      with Some Cons.IH [OF Cons.prems, of "dict_set acc v l"] show ?thesis
        by (simp add: lookup_list_list_of)
    qed
  qed
qed

lemma find_list_vars_first:
  assumes "\<forall>v \<in> set pre. list_of d v = None" "list_of d n1 = Some l1"
  shows "\<exists>rest. find_list_vars (JObj d) (pre @ n1 # post) [] = Inr ((n1, l1) # rest)"
  using assms(1)
proof (induction pre)
  case Nil
  with find_list_vars_head [OF assms(2), of post "[]"] assms(2) show ?case
    by (simp add: lookup_list_list_of)
next
  case (Cons v pre)
  then show ?case by (simp add: lookup_list_list_of)
qed

lemma zip_row_step:
  "zip_row (JObj d) i (v # vs) acc =
     (case map_of d v of
        None \<Rightarrow> zip_row (JObj d) i vs acc
      | Some x \<Rightarrow>
          (case list_of d v of
             Some l \<Rightarrow>
               if i < length l then zip_row (JObj d) i vs (dict_set acc v (l ! i))
               else Inl IndexError
           | None \<Rightarrow> zip_row (JObj d) i vs (dict_set acc v x)))"
  by (cases "map_of d v"; cases "the (map_of d v)")
     (simp_all add: in_vars_dict get_item_def list_of_def)

lemma list_of_None: "map_of d v = None \<Longrightarrow> list_of d v = None"
  by (simp add: list_of_def)

lemma zip_row_short:
  "\<exists>v \<in> set vs. \<exists>l. list_of d v = Some l \<and> length l \<le> i
     \<Longrightarrow> zip_row (JObj d) i vs acc = Inl IndexError"
proof (induction vs arbitrary: acc)
  case Nil
  then show ?case by simp
next
  case (Cons v vs)
  show ?case
  proof (cases "\<exists>l. list_of d v = Some l \<and> length l \<le> i")
    case True
    then show ?thesis
      by (auto simp: zip_row_step list_of_None simp del: zip_row.simps split: option.splits)
  next
    case False
    with Cons.prems have "\<exists>v \<in> set vs. \<exists>l. list_of d v = Some l \<and> length l \<le> i" by auto
    with Cons.IH False show ?thesis
      by (auto simp: zip_row_step simp del: zip_row.simps split: option.splits)
  qed
qed

lemma zip_row_long:
  "\<forall>v \<in> set vs. \<forall>l. list_of d v = Some l \<longrightarrow> i < length l
     \<Longrightarrow> \<exists>row. zip_row (JObj d) i vs acc = Inr row"
proof (induction vs arbitrary: acc)
  case Nil
  show ?case by simp
next
  case (Cons v vs)
  then show ?case
    by (auto simp: zip_row_step simp del: zip_row.simps split: option.splits)
qed

lemma zip_row_outcome:
  "zip_row (JObj d) i vs acc = Inl IndexError \<or> (\<exists>row. zip_row (JObj d) i vs acc = Inr row)"
  using zip_row_short [of vs d i acc] zip_row_long [of vs d i acc] by (meson not_le_imp_less)

lemma map_result_length: "map_result f xs = Inr ys \<Longrightarrow> length ys = length xs"
  by (induction xs arbitrary: ys) (auto split: sum.splits)

lemma map_result_all_ok:
  "\<forall>x \<in> set xs. \<exists>y. f x = Inr y \<Longrightarrow> \<exists>ys. map_result f xs = Inr ys"
  by (induction xs) (auto split: sum.splits)

lemma map_result_error:
  "\<exists>x \<in> set xs. f x = Inl e \<Longrightarrow> \<forall>x \<in> set xs. f x = Inl e \<or> (\<exists>y. f x = Inr y)
     \<Longrightarrow> map_result f xs = Inl e"
proof (induction xs)
  case Nil
  then show ?case by simp
next
  case (Cons x xs)
  show ?case
  proof (cases "f x")
    case (Inl e')
    with Cons.prems(2) show ?thesis by auto
  next
    case (Inr y)
    with Cons.prems have "\<exists>x \<in> set xs. f x = Inl e" by auto
    with Cons.IH Cons.prems(2) have "map_result f xs = Inl e" by simp
    with Inr show ?thesis by simp
  qed
qed

lemma sample_lib_set_iter: "set_iter sample_lib = remdups"
  by (simp add: sample_lib_def)

text \<open>
  C4. Let the group have no \<open>input_key\<close>, let \<open>n1\<close> be the first of the referenced
  names, in the iteration order of \<open>all_vars\<close>, that the scope \<open>d\<close> binds to a list,
  and let that list \<open>l1\<close> not start with a dictionary (the parallel-lists branch). If no
  referenced name is bound to a shorter list, the iteration source has as many rows as
  \<open>l1\<close> has elements. If some referenced name is bound to a shorter list, the lookup
  \<open>variables[var_name][i]\<close> goes past its end and the resolution raises \<open>IndexError\<close>:
  no check of the lengths comes before it.
\<close>

theorem parallel_lists_length:
  assumes nokey: "input_key g = None \<or> input_key g = Some []"
    and vars: "collect_vars (items g) \<noteq> []"
      "set_iter L (collect_vars (items g)) = pre @ n1 # post"
    and pre: "\<forall>v \<in> set pre. list_of d v = None"
    and first: "list_of d n1 = Some l1" "l1 = [] \<or> \<not> is_dict (hd l1)"
  shows "((\<forall>v \<in> set (pre @ n1 # post). \<forall>l. list_of d v = Some l \<longrightarrow> length l1 \<le> length l) \<longrightarrow>
            (\<exists>rows. find_iteration_source L g (JObj d) = Inr rows \<and> length rows = length l1))
       \<and> ((\<exists>v \<in> set (pre @ n1 # post). \<exists>l. list_of d v = Some l \<and> length l < length l1) \<longrightarrow>
            find_iteration_source L g (JObj d) = Inl IndexError)"
proof -
  let ?vs = "pre @ n1 # post"
  let ?row = "\<lambda>i. zip_row (JObj d) i ?vs []"
  from find_list_vars_first [OF pre first(1), of post] obtain rest where
    lv: "find_list_vars (JObj d) ?vs [] = Inr ((n1, l1) # rest)" by blast
  have src: "find_iteration_source L g (JObj d) = map_result ?row [0..<length l1]"
    using nokey vars first(2) lv by (auto simp: find_iteration_source_def Let_def)
  show ?thesis
  proof (intro conjI impI)
    assume all: "\<forall>v \<in> set ?vs. \<forall>l. list_of d v = Some l \<longrightarrow> length l1 \<le> length l"
    have "\<forall>i \<in> set [0..<length l1]. \<exists>row. ?row i = Inr row"
    proof
      fix i assume "i \<in> set [0..<length l1]"
      then have "i < length l1" by simp
      with all have "\<forall>v \<in> set ?vs. \<forall>l. list_of d v = Some l \<longrightarrow> i < length l"
        by (meson less_le_trans)
      then show "\<exists>row. ?row i = Inr row" by (rule zip_row_long)
    qed
    from map_result_all_ok [OF this] obtain rows where
      rows: "map_result ?row [0..<length l1] = Inr rows" by blast
    from map_result_length [OF rows] rows src
    show "\<exists>rows. find_iteration_source L g (JObj d) = Inr rows \<and> length rows = length l1"
      by simp
  next
    assume "\<exists>v \<in> set ?vs. \<exists>l. list_of d v = Some l \<and> length l < length l1"
    then obtain v l where v: "v \<in> set ?vs" "list_of d v = Some l" "length l < length l1"
      by blast
    then have "?row (length l) = Inl IndexError"
      by (intro zip_row_short) blast
    with v(3) have ex: "\<exists>i \<in> set [0..<length l1]. ?row i = Inl IndexError"
      by (metis atLeastLessThan_iff set_upt zero_le)
    have "\<forall>i \<in> set [0..<length l1]. ?row i = Inl IndexError \<or> (\<exists>y. ?row i = Inr y)"
    proof
      fix i
      show "?row i = Inl IndexError \<or> (\<exists>y. ?row i = Inr y)"
        by (rule zip_row_outcome)
    qed
    from map_result_error [OF ex this] src
    show "find_iteration_source L g (JObj d) = Inl IndexError" by simp
  qed
qed

text \<open>Lists of equal length give two rows; a second list of length one raises.\<close>

theorem parallel_lists_length_witness:
  "(\<exists>rows. find_iteration_source sample_lib pair_group
       (JObj [(''a'', JList [JInt 1, JInt 2]), (''b'', JList [JStr ''u'', JStr ''w''])]) = Inr rows
       \<and> length rows = length [JInt 1, JInt 2])
   \<and> find_iteration_source sample_lib pair_group
       (JObj [(''a'', JList [JInt 1, JInt 2]), (''b'', JList [JStr ''u''])]) = Inl IndexError
   \<and> format_iterable sample_lib pair_group
       (JObj [(''a'', JList [JInt 1, JInt 2]), (''b'', JList [JStr ''u''])]) = Inl IndexError"
  using parallel_lists_length [where g = pair_group and L = sample_lib and pre = "[]"
      and ?n1.0 = "''a''" and post = "[''b'']" and ?l1.0 = "[JInt 1, JInt 2]"
      and d = "[(''a'', JList [JInt 1, JInt 2]), (''b'', JList [JStr ''u'', JStr ''w''])]"]
    parallel_lists_length [where g = pair_group and L = sample_lib and pre = "[]"
      and ?n1.0 = "''a''" and post = "[''b'']" and ?l1.0 = "[JInt 1, JInt 2]"
      and d = "[(''a'', JList [JInt 1, JInt 2]), (''b'', JList [JStr ''u''])]"]
  by (simp add: pair_group_def sample_lib_set_iter list_of_def is_dict_def)

subsection \<open>Text templates and their declared variables\<close>

text \<open>
  C5 at the input where the two formatters part. With \<open>input_variables = ["name"]\<close>
  and the scope \<open>{"name": "World", "other": "ignored"}\<close>, the template
  \<open>Hello {other}\<close> is filled with the undeclared variable by
  \<open>ContentTemplateFormatter._format_text\<close>, which passes the whole scope, while
  \<open>BasePromptFormatter._process_text_template\<close>, which filters the scope first, raises
  \<open>KeyError\<close>. On \<open>Hello {name}\<close> both give \<open>Hello World\<close>.
\<close>

theorem format_text_unrestricted:
  "format_text sample_lib (TextTemplate ''Hello {other}'' [''name''])
     (JObj [(''name'', JStr ''World''), (''other'', JStr ''ignored'')]) =
     Inr [TextContentBlock ''Hello ignored'']
   \<and> process_text_template sample_lib (TextItem ''Hello {other}'' [''name''])
     [(''name'', JStr ''World''), (''other'', JStr ''ignored'')] ''f-string'' =
     Inl (KeyError ''other'')
   \<and> format_text sample_lib (TextTemplate ''Hello {name}'' [''name''])
     (JObj [(''name'', JStr ''World''), (''other'', JStr ''ignored'')]) =
     Inr [TextContentBlock ''Hello World'']
   \<and> process_text_template sample_lib (TextItem ''Hello {name}'' [''name''])
     [(''name'', JStr ''World''), (''other'', JStr ''ignored'')] ''f-string'' =
     Inr [JObj [(''type'', JStr ''text''), (''text'', JStr ''Hello World'')]]"
  by (simp add: eval_format process_text_template_def filter_vars_def format_string_def)

text \<open>The filter of the older formatter keeps exactly the declared keys that the scope has.\<close>

lemma filter_vars_restricts:
  "map_of (filter_vars ivs variables) k = (if k \<in> set ivs then map_of variables k else None)"
proof -
  have "\<And>acc. map_of (foldl (\<lambda>d k. case map_of variables k of None \<Rightarrow> d | Some v \<Rightarrow> dict_set d k v) acc ivs) k
      = (if k \<in> set ivs \<and> map_of variables k \<noteq> None then map_of variables k else map_of acc k)"
  proof (induction ivs)
    case Nil
    show ?case by simp
  next
    case (Cons i ivs)
    show ?case
      by (auto simp: Cons.IH map_of_dict_set split: option.splits)
  qed
  from this [of "[]"] show ?thesis by (auto simp: filter_vars_def)
qed

subsection \<open>An iterable message over a value that is not a list\<close>

text \<open>
  C10, as amended. For an iterable message template whose \<open>input_key\<close> is a non-empty
  name bound in the input to a value \<open>v\<close> that is not a list, the message is formatted
  with one pass: every content group once, against \<open>v\<close> as the scope, exactly as if the
  input held the one-element list of \<open>v\<close>. What the pass yields is up to the groups and
  to \<open>v\<close>.
\<close>

theorem format_message_wraps_non_list:
  assumes key: "key = Some k" "k \<noteq> []"
    and v: "map_of input_data k = Some v" "\<forall>l. v \<noteq> JList l"
  shows "format_message L (IterableContentMessageTemplate role contents key) input_data =
           map_sum id (Pair role) (concat_result (\<lambda>content_group. group_format L content_group v) contents)
       \<and> format_message L (IterableContentMessageTemplate role contents key) input_data =
           format_message L (IterableContentMessageTemplate role contents key)
             (dict_set input_data k (JList [v]))"
proof -
  have "iteration_data_of key input_data = [v]"
    using key v by (cases v) (simp_all add: iteration_data_of_def)
  moreover have "iteration_data_of key (dict_set input_data k (JList [v])) = [v]"
    using key by (simp add: iteration_data_of_def map_of_dict_set)
  ultimately show ?thesis
    by (simp add: format_message_def concat_result_single del: concat_result.simps)
qed

text \<open>A single page given as a dictionary and given as a one-element list.\<close>

theorem format_message_wraps_non_list_witness:
  "format_message sample_lib
     (IterableContentMessageTemplate ''user''
        [StaticContentTemplateGroup [TextTemplate ''page {t}'' [''t'']]] (Some ''doc''))
     [(''doc'', JObj [(''t'', JInt 7)])] =
   Inr (''user'', [TextContentBlock ''page 7''])
   \<and> format_message sample_lib
     (IterableContentMessageTemplate ''user''
        [StaticContentTemplateGroup [TextTemplate ''page {t}'' [''t'']]] (Some ''doc''))
     [(''doc'', JList [JObj [(''t'', JInt 7)]])] =
   Inr (''user'', [TextContentBlock ''page 7''])"
  using format_message_wraps_non_list [where key = "Some ''doc''" and k = "''doc''"
      and input_data = "[(''doc'', JObj [(''t'', JInt 7)])]"
      and v = "JObj [(''t'', JInt 7)]" and L = sample_lib and role = "''user''"
      and contents = "[StaticContentTemplateGroup [TextTemplate ''page {t}'' [''t'']]]"]
  by (simp add: eval_format)

text \<open>
  C10 as stated fails: with \<open>input_key\<close> bound to the number 5 the pass raises
  \<open>TypeError\<close> (a number cannot be unpacked as keyword arguments), and with
  \<open>input_key\<close> bound to a dictionary that lacks the key of the group, the message has
  an empty block list.
\<close>

theorem format_message_non_list_counterexample:
  "format_message sample_lib
     (IterableContentMessageTemplate ''user''
        [StaticContentTemplateGroup [TextTemplate ''hi'' []]] (Some ''doc''))
     [(''doc'', JInt 5)] = Inl TypeError
   \<and> format_message sample_lib
     (IterableContentMessageTemplate ''user'' [IterableGroup rows_group] (Some ''doc''))
     [(''doc'', JObj [(''t'', JInt 5)])] = Inr (''user'', [])"
  by (simp add: eval_format rows_group_def)

end
